theory Spec2Isabelle
  imports Complex_Main
begin

section \<open>Data model\<close>

text \<open>
  The dashboard script \<^verbatim>\<open>app.py\<close> works on pandas series of floats indexed by trading
  day. A series is an ordered list of (date, value) pairs; dates are day numbers. The
  prices are finite floats, modelled by the real numbers they denote. The table
  downloaded from the data provider is a map from column names to series.
\<close>

type_synonym date = nat
type_synonym series = "(date \<times> real) list"
type_synonym frame = "string \<rightharpoonup> series"

text \<open>Exceptions of class \<^verbatim>\<open>Exception\<close>, as values.\<close>

datatype exn = KeyError string | IndexError | Exception string

section \<open>Sidebar inputs (lines 19--21)\<close>

text \<open>
  \<^verbatim>\<open>
  ticker = st.sidebar.text_input("Ticker Symbol", value="SPY", help=...)
  period = st.sidebar.selectbox("Lookback Period", ["1y", "2y", "5y", "10y"], index=1)
  vol_threshold = st.sidebar.slider("Volatility Alert Threshold (%)", 10, 50, 20)
  \<close>
  A widget declaration carries its label and the arguments of the call: the initial text of
  a text input; the options and the index of the preselected option of a select box; the
  minimum, the maximum and the initial value of a slider (a slider whose three numbers are
  integers yields integers).
\<close>

datatype widget_value = Text string | Number int

datatype widget =
    Text_input string string
  | Selectbox string "string list" nat
  | Slider string int int int

definition sidebar_inputs :: "widget list" where
  "sidebar_inputs =
     [Text_input ''Ticker Symbol'' ''SPY'',
      Selectbox ''Lookback Period'' [''1y'', ''2y'', ''5y'', ''10y''] 1,
      Slider ''Volatility Alert Threshold (%)'' 10 50 20]"

text \<open>The value a widget returns on the first run, before the user touches it.\<close>

fun initial_value :: "widget \<Rightarrow> exn + widget_value" where
  "initial_value (Text_input label v) = Inr (Text v)"
| "initial_value (Selectbox label options index) =
     (if index < length options then Inr (Text (options ! index))
      else Inl (Exception ''Selectbox index out of range''))"
| "initial_value (Slider label lo hi v) =
     (if lo \<le> v \<and> v \<le> hi then Inr (Number v)
      else Inl (Exception ''Slider value out of range''))"

text \<open>The values a widget can return at all.\<close>

fun accepts :: "widget \<Rightarrow> widget_value \<Rightarrow> bool" where
  "accepts (Text_input label v) (Text s) = True"
| "accepts (Selectbox label options index) (Text s) = (s \<in> set options)"
| "accepts (Slider label lo hi v) (Number n) = (lo \<le> n \<and> n \<le> hi)"
| "accepts w x = False"

section \<open>Data fetcher (lines 24--27)\<close>

text \<open>
  \<^verbatim>\<open>
  @st.cache_data
  def get_data(ticker, period):
      data = yf.download(ticker, period=period, progress=False)
      return data['Adj Close']
  \<close>
  The provider is the network: what \<^verbatim>\<open>yf.download\<close> answers to the n-th request of the
  process may depend on n. The state of the process is the cache and the number of
  requests sent so far.
\<close>

type_synonym provider = "nat \<Rightarrow> string \<Rightarrow> string \<Rightarrow> exn + frame"

record app_state =
  cache :: "string \<times> string \<rightharpoonup> series"
  fetches :: nat

definition initial_state :: app_state where
  "initial_state = \<lparr>cache = Map.empty, fetches = 0\<rparr>"

text \<open>The body of \<^verbatim>\<open>get_data\<close>: one download, then the column \<^verbatim>\<open>'Adj Close'\<close>.\<close>

definition get_data_body :: "provider \<Rightarrow> nat \<Rightarrow> string \<Rightarrow> string \<Rightarrow> exn + series" where
  "get_data_body yf n ticker period =
     (case yf n ticker period of
        Inl x \<Rightarrow> Inl x
      | Inr data \<Rightarrow>
          (case data ''Adj Close'' of
             None \<Rightarrow> Inl (KeyError ''Adj Close'')
           | Some col \<Rightarrow> Inr col))"

text \<open>
  Modelled from the spec: the decorator \<^verbatim>\<open>st.cache_data\<close> is library code, not part of
  the sources. Section 4.1: the result is cached by the exact (ticker, period) pair for the
  remainder of the process lifetime, so repeated calls with identical arguments return the
  previously fetched series without a new network call; section 3: the cache is unbounded
  and has no invalidation. A call that raises stores nothing.
\<close>

definition get_data ::
  "provider \<Rightarrow> string \<Rightarrow> string \<Rightarrow> app_state \<Rightarrow> (exn + series) \<times> app_state" where
  "get_data yf ticker period st =
     (case cache st (ticker, period) of
        Some hit \<Rightarrow> (Inr hit, st)
      | None \<Rightarrow>
          (case get_data_body yf (fetches st) ticker period of
             Inl x \<Rightarrow> (Inl x, st\<lparr>fetches := Suc (fetches st)\<rparr>)
           | Inr col \<Rightarrow>
               (Inr col, st\<lparr>cache := (cache st)((ticker, period) \<mapsto> col),
                              fetches := Suc (fetches st)\<rparr>)))"

text \<open>The rest of the process lifetime: any further calls of \<^verbatim>\<open>get_data\<close>, in order.\<close>

fun run_calls :: "provider \<Rightarrow> (string \<times> string) list \<Rightarrow> app_state \<Rightarrow> app_state" where
  "run_calls yf [] st = st"
| "run_calls yf ((ticker, period) # rest) st =
     run_calls yf rest (snd (get_data yf ticker period st))"

section \<open>Volatility engine\<close>

text \<open>
  The script calls \<^verbatim>\<open>volatility(prices, Window(22, 0))\<close> of the library gs_quant (line 37);
  the routine itself is not part of the sources. The pipeline below takes it as a
  parameter. The definitions of this section follow the specification's description of it.
\<close>

datatype window = Window nat nat

datatype returns_type = Simple | Logarithmic

definition one_return :: "returns_type \<Rightarrow> real \<Rightarrow> real \<Rightarrow> real" where
  "one_return rt prev cur =
     (case rt of Simple \<Rightarrow> cur / prev - 1 | Logarithmic \<Rightarrow> ln (cur / prev))"

text \<open>The daily returns of n prices: n - 1 numbers, the k-th from prices k and k + 1.\<close>

definition daily_returns :: "returns_type \<Rightarrow> real list \<Rightarrow> real list" where
  "daily_returns rt ps = map (\<lambda>(prev, cur). one_return rt prev cur) (zip ps (tl ps))"

definition mean :: "real list \<Rightarrow> real" where
  "mean xs = sum_list xs / real (length xs)"

definition standard_deviation :: "real list \<Rightarrow> real" where
  "standard_deviation xs =
     sqrt (sum_list (map (\<lambda>x. (x - mean xs)\<^sup>2) xs) / real (length xs - 1))"

definition annualize :: "real \<Rightarrow> real" where
  "annualize s = sqrt 252 * s"

text \<open>
  The returns ending at price index i, at most \<open>windowSize\<close> of them (at index
  \<open>windowSize - 1\<close> only \<open>windowSize - 1\<close> returns exist).
\<close>

definition trailing_returns :: "returns_type \<Rightarrow> real list \<Rightarrow> nat \<Rightarrow> nat \<Rightarrow> real list" where
  "trailing_returns rt ps windowSize i = drop (i - windowSize) (take i (daily_returns rt ps))"

text \<open>
  Modelled from the spec: \<^verbatim>\<open>volatility\<close> of gs_quant is missing from the sources. Section
  4.2: \<^verbatim>\<open>rollingVolatility(prices, windowSize)\<close> computes, for each date index i \<ge>
  windowSize - 1, the annualized standard deviation of the trailing windowSize daily log
  (or simple) returns ending at i, scaled by the square root of 252, as a fraction;
  windowSize must be a positive integer \<le> the length of the input series, otherwise the
  result is an empty series. The sample standard deviation is taken; a window of fewer
  than two returns, which no window of 22 has, gets 0.
\<close>

definition rollingVolatility :: "returns_type \<Rightarrow> series \<Rightarrow> nat \<Rightarrow> series" where
  "rollingVolatility rt prices windowSize =
     (if 0 < windowSize \<and> windowSize \<le> length prices
      then map (\<lambda>i. (fst (prices ! i),
                      annualize (standard_deviation
                        (trailing_returns rt (map snd prices) windowSize i))))
             [windowSize - 1 ..< length prices]
      else [])"

text \<open>The engine with the window of the script, 22 trading days.\<close>

definition volatility_engine :: "returns_type \<Rightarrow> series \<Rightarrow> series" where
  "volatility_engine rt prices = rollingVolatility rt prices 22"

section \<open>Float arithmetic\<close>

text \<open>
  The prices are finite floats, read as the reals they denote. The values of the
  volatility series, and everything computed from them, are floats in full: a finite
  number, negative zero, an infinity or NaN.
\<close>

datatype pyfloat = Finite real | NegZero | PosInf | NegInf | NaN

type_synonym fseries = "(date \<times> pyfloat) list"

definition round_half_even :: "real \<Rightarrow> int" where
  "round_half_even x =
     (let f = \<lfloor>x\<rfloor>; d = x - of_int f
      in if d < 1/2 then f else if d > 1/2 then f + 1 else if even f then f else f + 1)"

definition pow2 :: "int \<Rightarrow> real" where
  "pow2 k = (if 0 \<le> k then 2 ^ nat k else 1 / 2 ^ nat (- k))"

text \<open>The binary exponent of a positive number: the e with \<open>2 ^ e \<le> a < 2 ^ (e + 1)\<close>.\<close>

function binary_exponent :: "real \<Rightarrow> int" where
  "binary_exponent a =
     (if a \<le> 0 then 0
      else if 2 \<le> a then binary_exponent (a / 2) + 1
      else if a < 1 then binary_exponent (a * 2) - 1
      else 0)"
  by pat_completeness auto
termination
proof (relation "measure (\<lambda>a. nat \<bar>\<lfloor>log 2 a\<rfloor>\<bar>)")
  show "wf (measure (\<lambda>a. nat \<bar>\<lfloor>log 2 a\<rfloor>\<bar>))" by simp
next
  fix a :: real
  assume "\<not> a \<le> 0" and a: "2 \<le> a"
  have "log 2 (a / 2) = log 2 a - 1" using a by (simp add: log_divide)
  then have f: "\<lfloor>log 2 (a / 2)\<rfloor> = \<lfloor>log 2 a\<rfloor> - 1" by simp
  have "1 \<le> log 2 a" using a by (simp add: le_log_iff)
  then have "1 \<le> \<lfloor>log 2 a\<rfloor>" by linarith
  with f show "(a / 2, a) \<in> measure (\<lambda>a. nat \<bar>\<lfloor>log 2 a\<rfloor>\<bar>)" by simp
next
  fix a :: real
  assume p: "\<not> a \<le> 0" and "\<not> 2 \<le> a" and a: "a < 1"
  have "log 2 (a * 2) = log 2 a + 1" using p by (simp add: log_mult)
  then have f: "\<lfloor>log 2 (a * 2)\<rfloor> = \<lfloor>log 2 a\<rfloor> + 1" by simp
  have "log 2 a < 0" using p a by simp
  then have "\<lfloor>log 2 a\<rfloor> \<le> -1" by linarith
  with f show "(a * 2, a) \<in> measure (\<lambda>a. nat \<bar>\<lfloor>log 2 a\<rfloor>\<bar>)" by simp
qed

declare binary_exponent.simps [simp del]

text \<open>
  The result of a float operation whose exact value is x: the nearest double, ties to
  even. Doubles have 53 significant bits and exponents from -1022 (below, the spacing
  stays \<open>2 ^ -1074\<close>); a result of magnitude \<open>2 ^ 1024\<close> or more is an infinity.
\<close>

definition round_to_double :: "real \<Rightarrow> pyfloat" where
  "round_to_double x =
     (let a = \<bar>x\<bar>;
          e = max (binary_exponent a) (- 1022);
          q = pow2 (e - 52);
          m = of_int (round_half_even (a / q)) * q
      in if pow2 1024 \<le> m then (if 0 < x then PosInf else NegInf)
         else if m = 0 then (if x < 0 then NegZero else Finite 0)
         else Finite (if x < 0 then - m else m))"

text \<open>\<^verbatim>\<open>v * 100\<close> on a float v (lines 41 and 73).\<close>

fun times_100 :: "pyfloat \<Rightarrow> pyfloat" where
  "times_100 (Finite r) = round_to_double (r * 100)"
| "times_100 NegZero = NegZero"
| "times_100 PosInf = PosInf"
| "times_100 NegInf = NegInf"
| "times_100 NaN = NaN"

section \<open>Number formatting\<close>

text \<open>
  The format \<^verbatim>\<open>:.2f\<close> of lines 45 and 46 prints a number rounded to two decimals, ties
  to even. \<open>hundredths x\<close> is the printed number times 100.
\<close>

definition hundredths :: "real \<Rightarrow> int" where
  "hundredths x = round_half_even (x * 100)"

definition digit :: "nat \<Rightarrow> char" where
  "digit d = ''0123456789'' ! d"

fun digits :: "nat \<Rightarrow> string" where
  "digits n = (if n < 10 then [digit n] else digits (n div 10) @ [digit (n mod 10)])"

declare digits.simps [simp del]

definition format_2f :: "real \<Rightarrow> string" where
  "format_2f x =
     (let h = nat \<bar>hundredths x\<bar>
      in (if x < 0 then ''-'' else '''') @ digits (h div 100) @ ''.''
           @ [digit (h div 10 mod 10), digit (h mod 10)])"

fun format_float :: "pyfloat \<Rightarrow> string" where
  "format_float (Finite r) = format_2f r"
| "format_float NegZero = ''-0.00''"
| "format_float PosInf = ''inf''"
| "format_float NegInf = ''-inf''"
| "format_float NaN = ''nan''"

text \<open>
  Reading a printed number back: an optional minus sign, digits, a point and two digits.
  This is what a string on the page says, as a number.
\<close>

definition digit_value :: "char \<Rightarrow> nat option" where
  "digit_value c = find (\<lambda>d. digit d = c) [0, 1, 2, 3, 4, 5, 6, 7, 8, 9]"

fun read_digits :: "nat \<Rightarrow> string \<Rightarrow> nat option" where
  "read_digits acc [] = Some acc"
| "read_digits acc (c # cs) =
     (case digit_value c of None \<Rightarrow> None | Some d \<Rightarrow> read_digits (acc * 10 + d) cs)"

definition read_nat :: "string \<Rightarrow> nat option" where
  "read_nat s = (if s = [] then None else read_digits 0 s)"

definition read_unsigned :: "string \<Rightarrow> real option" where
  "read_unsigned body =
     (let whole = takeWhile (\<lambda>c. c \<noteq> CHR ''.'') body;
          frac = drop (length whole + 1) body
      in if length body \<le> length whole \<or> length frac \<noteq> 2 then None
         else (case read_nat whole of
                 None \<Rightarrow> None
               | Some w \<Rightarrow>
                   (case read_nat frac of
                      None \<Rightarrow> None
                    | Some f \<Rightarrow> Some (real w + real f / 100))))"

definition read_2f :: "string \<Rightarrow> real option" where
  "read_2f s =
     (if take 1 s = ''-'' then map_option uminus (read_unsigned (drop 1 s))
      else read_unsigned s)"

section \<open>Regime classification (lines 48--54)\<close>

text \<open>
  \<^verbatim>\<open>
  if current_vol > vol_threshold:
      status = "HIGH VOLATILITY (Defensive)";  col3.error(status)
  else:
      status = "NORMAL VOLATILITY (Stable)";   col3.success(status)
  \<close>
  Both labels start with an emoji, written here as its UTF-8 bytes.
\<close>

datatype RegimeState = STABLE | HIGH_VOLATILITY

definition classify :: "real \<Rightarrow> real \<Rightarrow> RegimeState" where
  "classify current_vol vol_threshold =
     (if current_vol > vol_threshold then HIGH_VOLATILITY else STABLE)"

text \<open>
  The comparison on a float that need not be finite: NaN is greater than nothing, plus
  infinity greater than every threshold.
\<close>

fun regime_of :: "pyfloat \<Rightarrow> int \<Rightarrow> RegimeState" where
  "regime_of (Finite r) vol_threshold = classify r (of_int vol_threshold)"
| "regime_of NegZero vol_threshold = classify 0 (of_int vol_threshold)"
| "regime_of PosInf vol_threshold = HIGH_VOLATILITY"
| "regime_of NegInf vol_threshold = STABLE"
| "regime_of NaN vol_threshold = STABLE"

section \<open>The page and the main analytics (lines 30--86)\<close>

text \<open>
  What the calls of the \<^verbatim>\<open>try\<close> block put on the page, one element per call, in order:
  the row of three columns (line 44), two metrics (45, 46), the status badge in the third
  column (51 or 54), a subheader (57), the chart (\<^verbatim>\<open>st.pyplot\<close>, line 79, with the figure
  built in lines 59--77), the expander (82) and, inside it, the table of the last 30 rows
  (83). Streamlit sends every element to the page when its call returns. The title and the
  sidebar are rendered before the \<^verbatim>\<open>try\<close> block; the spinner of line 32 is removed when
  its \<^verbatim>\<open>with\<close> block is left, with or without an exception.
\<close>

datatype place = Page | Column nat | In_expander

record figure =
  price_line :: series
  vol_line :: fseries
  threshold_line :: real

datatype element =
    Columns nat
  | Metric place string string
  | Alert_error place string
  | Alert_success place string
  | Subheader string
  | Pyplot figure
  | Expander string
  | Dataframe place series

text \<open>
  The collaborators of one run: the provider, the volatility routine (given the series and
  the window, it returns a series or raises) and, for every element, whether the library
  call that renders it raises.
\<close>

record env =
  yf_download :: provider
  volatility :: "series \<Rightarrow> window \<Rightarrow> exn + fseries"
  raises :: "element \<Rightarrow> exn option"

text \<open>\<^verbatim>\<open>s.iloc[-1]\<close>: the last value, IndexError on an empty series.\<close>

definition iloc_last :: "(date \<times> 'a) list \<Rightarrow> exn + 'a" where
  "iloc_last s = (if s = [] then Inl IndexError else Inr (snd (last s)))"

text \<open>\<^verbatim>\<open>s.tail(n)\<close>: the last n rows, all of them when there are fewer.\<close>

definition tail_rows :: "nat \<Rightarrow> series \<Rightarrow> series" where
  "tail_rows n s = drop (length s - n) s"

definition high_status :: string where
  "high_status = [CHR 0xF0, CHR 0x9F, CHR 0x94, CHR 0xB4] @ '' HIGH VOLATILITY (Defensive)''"

definition normal_status :: string where
  "normal_status = [CHR 0xF0, CHR 0x9F, CHR 0x9F, CHR 0xA2] @ '' NORMAL VOLATILITY (Stable)''"

definition status_badge :: "pyfloat \<Rightarrow> int \<Rightarrow> element" where
  "status_badge current_vol vol_threshold =
     (case regime_of current_vol vol_threshold of
        HIGH_VOLATILITY \<Rightarrow> Alert_error (Column 3) high_status
      | STABLE \<Rightarrow> Alert_success (Column 3) normal_status)"

text \<open>
  Lines 31--41: fetch, volatility, latest values. Nothing is rendered yet. The result is
  (prices, vol_series, current_price, current_vol), with \<^verbatim>\<open>current_vol\<close> the float
  product of line 41.
\<close>

definition analytics ::
  "env \<Rightarrow> string \<Rightarrow> string \<Rightarrow> app_state
     \<Rightarrow> (exn + series \<times> fseries \<times> real \<times> pyfloat) \<times> app_state" where
  "analytics e ticker period st =
     (case get_data (yf_download e) ticker period st of
        (Inl x, st') \<Rightarrow> (Inl x, st')
      | (Inr prices, st') \<Rightarrow>
          (case volatility e prices (Window 22 0) of
             Inl x \<Rightarrow> (Inl x, st')
           | Inr vol_series \<Rightarrow>
               (case iloc_last prices of
                  Inl x \<Rightarrow> (Inl x, st')
                | Inr current_price \<Rightarrow>
                    (case iloc_last vol_series of
                       Inl x \<Rightarrow> (Inl x, st')
                     | Inr last_vol \<Rightarrow>
                         (Inr (prices, vol_series, current_price, times_100 last_vol), st')))))"

text \<open>Lines 43--83: the eight elements, in the order of their calls.\<close>

definition dashboard_elements ::
  "series \<Rightarrow> fseries \<Rightarrow> real \<Rightarrow> pyfloat \<Rightarrow> int \<Rightarrow> element list" where
  "dashboard_elements prices vol_series current_price current_vol vol_threshold =
     [Columns 3,
      Metric (Column 1) ''Current Price'' (''$'' @ format_2f current_price),
      Metric (Column 2) ''30-Day Volatility'' (format_float current_vol @ ''%''),
      status_badge current_vol vol_threshold,
      Subheader ''Price vs. Volatility Regime'',
      Pyplot \<lparr>price_line = prices,
              vol_line = map (\<lambda>(d, v). (d, times_100 v)) vol_series,
              threshold_line = of_int vol_threshold\<rparr>,
      Expander ''View Raw Data'',
      Dataframe In_expander (tail_rows 30 prices)]"

text \<open>
  Rendering in order: an element whose call raises stops the block; what was rendered
  before it stays on the page.
\<close>

fun render_all ::
  "(element \<Rightarrow> exn option) \<Rightarrow> element list \<Rightarrow> element list \<Rightarrow> exn option \<times> element list" where
  "render_all rs page [] = (None, page)"
| "render_all rs page (el # rest) =
     (case rs el of
        Some x \<Rightarrow> (Some x, page)
      | None \<Rightarrow> render_all rs (page @ [el]) rest)"

definition try_block ::
  "env \<Rightarrow> string \<Rightarrow> string \<Rightarrow> int \<Rightarrow> app_state \<Rightarrow> exn option \<times> element list \<times> app_state" where
  "try_block e ticker period vol_threshold st =
     (case analytics e ticker period st of
        (Inl x, st') \<Rightarrow> (Some x, [], st')
      | (Inr (prices, vol_series, current_price, current_vol), st') \<Rightarrow>
          (case render_all (raises e) []
                  (dashboard_elements prices vol_series current_price current_vol vol_threshold) of
             (raised, page) \<Rightarrow> (raised, page, st')))"

text \<open>
  Line 86:
  \<^verbatim>\<open>st.error(f"Error: Could not fetch data for ticker '{ticker}'. Please check the symbol.")\<close>
\<close>

definition error_message :: "string \<Rightarrow> string" where
  "error_message ticker =
     ''Error: Could not fetch data for ticker '' @ [CHR 0x27] @ ticker @ [CHR 0x27]
       @ ''. Please check the symbol.''"

text \<open>The \<^verbatim>\<open>try\<close> block with its \<^verbatim>\<open>except Exception\<close> clause.\<close>

definition main_analytics ::
  "env \<Rightarrow> string \<Rightarrow> string \<Rightarrow> int \<Rightarrow> app_state \<Rightarrow> element list \<times> app_state" where
  "main_analytics e ticker period vol_threshold st =
     (case try_block e ticker period vol_threshold st of
        (None, page, st') \<Rightarrow> (page, st')
      | (Some x, page, st') \<Rightarrow> (page @ [Alert_error Page (error_message ticker)], st'))"


section \<open>Concrete inputs\<close>

text \<open>A provider that knows one ticker; its answer changes with every request.\<close>

definition demo_provider :: provider where
  "demo_provider n ticker period =
     (if ticker = ''SPY''
      then Inr [''Adj Close'' \<mapsto> [(0, 100 + real n), (1, 101 + real n)],
                ''Volume'' \<mapsto> [(0, 5000), (1, 7000)]]
      else Inl (Exception ''No data found''))"

text \<open>A provider that knows the ticker in two spellings.\<close>

definition two_spellings_provider :: provider where
  "two_spellings_provider n ticker period =
     (if ticker = ''SPY'' then Inr [''Adj Close'' \<mapsto> [(0, 100), (1, 101)]]
      else if ticker = '' spy'' then Inr [''Adj Close'' \<mapsto> [(0, 100), (1, 102)]]
      else Inl (Exception ''No data found''))"

text \<open>
  The doubles nearest to 0.2, 0.20004, 0.30002 and 0.15, as exact fractions (the
  denominators are powers of two).
\<close>

definition double_0_2 :: real where
  "double_0_2 = 3602879701896397 / 18014398509481984"

definition double_0_20004 :: real where
  "double_0_20004 = 450450034729597 / 2251799813685248"

definition double_0_30002 :: real where
  "double_0_30002 = 5404679840814785 / 18014398509481984"

definition double_0_15 :: real where
  "double_0_15 = 5404319552844595 / 36028797018963968"

text \<open>
  Runs on the prices 100 and 101: one in which every call succeeds, for a given latest
  volatility, one in which the chart fails and one in which the table fails.
\<close>

definition demo_env :: "pyfloat \<Rightarrow> env" where
  "demo_env last_vol = \<lparr>yf_download = demo_provider,
                        volatility = (\<lambda>s w. Inr [(1, last_vol)]),
                        raises = (\<lambda>el. None)\<rparr>"


definition two_spellings_env :: env where
  "two_spellings_env = \<lparr>yf_download = two_spellings_provider,
                        volatility = (\<lambda>s w. Inr [(1, Finite double_0_15)]),
                        raises = (\<lambda>el. case el of Dataframe p s \<Rightarrow> Some (Exception ''render'')
                                                 | _ \<Rightarrow> None)\<rparr>"

text \<open>Twenty-three rising prices.\<close>

definition rising_prices :: series where
  "rising_prices = map (\<lambda>i. (i, 50 + real i)) [0..<23]"

section \<open>Properties of the sidebar inputs\<close>

text \<open>
  C7. The UI exposes exactly three configuration inputs: a free-text ticker defaulting to
  "SPY", a single-select period restricted to 1y, 2y, 5y, 10y defaulting to "2y", and an
  integer threshold slider ranging from 10 to 50 defaulting to 20.
\<close>

theorem sidebar_inputs_domains_and_defaults:
  "length sidebar_inputs = 3
   \<and> map initial_value sidebar_inputs = [Inr (Text ''SPY''), Inr (Text ''2y''), Inr (Number 20)]
   \<and> {v. accepts (sidebar_inputs ! 0) v} = range Text
   \<and> {v. accepts (sidebar_inputs ! 1) v} = Text ` {''1y'', ''2y'', ''5y'', ''10y''}
   \<and> {v. accepts (sidebar_inputs ! 2) v} = Number ` {10..50}"
proof -
  have a: "{v. accepts (Text_input l d) v} = range Text" for l d
  proof (rule set_eqI)
    fix v show "(v \<in> {v. accepts (Text_input l d) v}) = (v \<in> range Text)"
      by (cases v) auto
  qed
  have b: "{v. accepts (Selectbox l opts i) v} = Text ` set opts" for l opts i
  proof (rule set_eqI)
    fix v show "(v \<in> {v. accepts (Selectbox l opts i) v}) = (v \<in> Text ` set opts)"
      by (cases v) auto
  qed
  have c: "{v. accepts (Slider l lo hi d) v} = Number ` {lo..hi}" for l lo hi d
  proof (rule set_eqI)
    fix v show "(v \<in> {v. accepts (Slider l lo hi d) v}) = (v \<in> Number ` {lo..hi})"
      by (cases v) auto
  qed
  show ?thesis
    by (simp add: sidebar_inputs_def a b c)
qed

section \<open>Properties of the data fetcher\<close>

lemma get_data_keeps_entry:
  "cache st k = Some s \<Longrightarrow> cache (snd (get_data yf ticker period st)) k = Some s"
  by (auto simp: get_data_def split: option.splits sum.splits)

lemma run_calls_keeps_entry:
  "cache st k = Some s \<Longrightarrow> cache (run_calls yf ks st) k = Some s"
proof (induction ks arbitrary: st)
  case Nil
  then show ?case by simp
next
  case (Cons a ks)
  obtain t p where a: "a = (t, p)" by (cases a)
  from Cons.prems have "cache (snd (get_data yf t p st)) k = Some s"
    by (rule get_data_keeps_entry)
  then show ?case unfolding a by (simp add: Cons.IH)
qed

lemma get_data_success_cached:
  "fst (get_data yf ticker period st) = Inr s \<Longrightarrow>
   cache (snd (get_data yf ticker period st)) (ticker, period) = Some s"
  by (auto simp: get_data_def split: option.splits sum.splits)

lemma get_data_hit:
  "cache st (ticker, period) = Some s \<Longrightarrow> get_data yf ticker period st = (Inr s, st)"
  by (simp add: get_data_def)

lemma demo_first_call:
  "get_data demo_provider ''SPY'' ''2y'' initial_state
     = (Inr [(0, 100), (1, 101)],
        \<lparr>cache = [(''SPY'', ''2y'') \<mapsto> [(0, 100), (1, 101)]], fetches = 1\<rparr>)"
  by (simp add: get_data_def get_data_body_def demo_provider_def initial_state_def)

text \<open>
  C4. For every valid (ticker, period) pair, calling the data fetcher a second time with
  identical arguments returns a series with the same content as the first call and
  performs no network access, for the remainder of the process lifetime: whatever other
  calls happened in between, the later call returns the series of the first one and
  leaves the state, with its count of network requests, as it was.
\<close>

theorem get_data_second_call_cached:
  assumes "fst (get_data yf ticker period st) = Inr s"
    and "st' = run_calls yf others (snd (get_data yf ticker period st))"
  shows "fst (get_data yf ticker period st') = Inr s
         \<and> snd (get_data yf ticker period st') = st'
         \<and> fetches (snd (get_data yf ticker period st')) = fetches st'"
proof -
  have "cache st' (ticker, period) = Some s"
    unfolding assms(2) using assms(1)
    by (intro run_calls_keeps_entry get_data_success_cached)
  then show ?thesis by (simp add: get_data_hit)
qed

theorem get_data_second_call_cached_witness:
  "fst (get_data demo_provider ''SPY'' ''2y'' initial_state) = Inr [(0, 100), (1, 101)]
   \<and> fst (get_data demo_provider ''SPY'' ''2y''
        (run_calls demo_provider [(''QQQ'', ''1y''), (''SPY'', ''5y'')]
           (snd (get_data demo_provider ''SPY'' ''2y'' initial_state))))
      = Inr [(0, 100), (1, 101)]
   \<and> fetches (snd (get_data demo_provider ''SPY'' ''2y''
        (run_calls demo_provider [(''QQQ'', ''1y''), (''SPY'', ''5y'')]
           (snd (get_data demo_provider ''SPY'' ''2y'' initial_state)))))
      = fetches (run_calls demo_provider [(''QQQ'', ''1y''), (''SPY'', ''5y'')]
           (snd (get_data demo_provider ''SPY'' ''2y'' initial_state)))"
proof -
  have h: "fst (get_data demo_provider ''SPY'' ''2y'' initial_state) = Inr [(0, 100), (1, 101)]"
    by (simp add: demo_first_call)
  show ?thesis
    using h get_data_second_call_cached
      [OF h refl, of "[(''QQQ'', ''1y''), (''SPY'', ''5y'')]"]
    by simp
qed

lemma get_data_origin:
  assumes "\<forall>t p s. cache st (t, p) = Some s \<longrightarrow>
             (\<exists>n data. n < fetches st \<and> yf n t p = Inr data \<and> data ''Adj Close'' = Some s)"
  shows "\<forall>t p s. cache (snd (get_data yf ticker period st)) (t, p) = Some s \<longrightarrow>
             (\<exists>n data. n < fetches (snd (get_data yf ticker period st))
                \<and> yf n t p = Inr data \<and> data ''Adj Close'' = Some s)"
proof (intro allI impI)
  fix t p s
  assume c: "cache (snd (get_data yf ticker period st)) (t, p) = Some s"
  show "\<exists>n data. n < fetches (snd (get_data yf ticker period st))
                \<and> yf n t p = Inr data \<and> data ''Adj Close'' = Some s"
  proof (cases "cache st (ticker, period)")
    case (Some hit)
    then have "get_data yf ticker period st = (Inr hit, st)" by (rule get_data_hit)
    with c assms show ?thesis by simp
  next
    case None
    show ?thesis
    proof (cases "get_data_body yf (fetches st) ticker period")
      case (Inl x)
      with None have g: "snd (get_data yf ticker period st) = st\<lparr>fetches := Suc (fetches st)\<rparr>"
        by (simp add: get_data_def)
      from c have "cache st (t, p) = Some s" unfolding g by simp
      with assms obtain n data where
        "n < fetches st" "yf n t p = Inr data" "data ''Adj Close'' = Some s" by blast
      then show ?thesis unfolding g by (intro exI [of _ n] exI [of _ data]) simp
    next
      case (Inr col)
      with None have g: "snd (get_data yf ticker period st)
          = st\<lparr>cache := (cache st)((ticker, period) \<mapsto> col), fetches := Suc (fetches st)\<rparr>"
        by (simp add: get_data_def)
      show ?thesis
      proof (cases "(t, p) = (ticker, period)")
        case True
        with c have "s = col" unfolding g by simp
        with Inr obtain data where
          "yf (fetches st) ticker period = Inr data" "data ''Adj Close'' = Some s"
          by (auto simp: get_data_body_def split: sum.splits option.splits)
        with True show ?thesis unfolding g
          by (intro exI [of _ "fetches st"] exI [of _ data]) simp
      next
        case False
        with c have "cache st (t, p) = Some s" unfolding g by (auto split: if_splits)
        with assms obtain n data where
          "n < fetches st" "yf n t p = Inr data" "data ''Adj Close'' = Some s" by blast
        then show ?thesis unfolding g by (intro exI [of _ n] exI [of _ data]) simp
      qed
    qed
  qed
qed

lemma run_calls_origin:
  assumes "\<forall>t p s. cache st (t, p) = Some s \<longrightarrow>
             (\<exists>n data. n < fetches st \<and> yf n t p = Inr data \<and> data ''Adj Close'' = Some s)"
  shows "\<forall>t p s. cache (run_calls yf ks st) (t, p) = Some s \<longrightarrow>
             (\<exists>n data. n < fetches (run_calls yf ks st)
                \<and> yf n t p = Inr data \<and> data ''Adj Close'' = Some s)"
  using assms
proof (induction ks arbitrary: st)
  case Nil
  then show ?case by simp
next
  case (Cons a ks)
  obtain t p where a: "a = (t, p)" by (cases a)
  show ?case unfolding a run_calls.simps
    by (rule Cons.IH) (rule get_data_origin [OF Cons.prems])
qed

text \<open>
  C9. For every (ticker, period), the data fetcher returns only the adjusted-close column
  of the downloaded data: a single price series, not the full multi-column frame. At any
  point of the process, a series it returns is the column \<^verbatim>\<open>'Adj Close'\<close> of a frame that
  the provider sent for this ticker and period.
\<close>

theorem get_data_returns_adj_close:
  assumes "st = run_calls yf ks initial_state"
    and "fst (get_data yf ticker period st) = Inr s"
  shows "\<exists>n data. n \<le> fetches st \<and> yf n ticker period = Inr data \<and> data ''Adj Close'' = Some s"
proof -
  have "\<forall>t p s. cache initial_state (t, p) = Some s \<longrightarrow>
          (\<exists>n data. n < fetches initial_state \<and> yf n t p = Inr data \<and> data ''Adj Close'' = Some s)"
    by (simp add: initial_state_def)
  then have inv: "\<forall>t p s. cache st (t, p) = Some s \<longrightarrow>
          (\<exists>n data. n < fetches st \<and> yf n t p = Inr data \<and> data ''Adj Close'' = Some s)"
    unfolding assms(1) by (rule run_calls_origin)
  show ?thesis
  proof (cases "cache st (ticker, period)")
    case (Some hit)
    with assms(2) have "hit = s" by (simp add: get_data_hit)
    with Some inv obtain n data where
      "n < fetches st" "yf n ticker period = Inr data" "data ''Adj Close'' = Some s" by blast
    then show ?thesis by (intro exI [of _ n] exI [of _ data]) simp
  next
    case None
    with assms(2) obtain data where
      "yf (fetches st) ticker period = Inr data" "data ''Adj Close'' = Some s"
      by (auto simp: get_data_def get_data_body_def split: sum.splits option.splits)
    then show ?thesis by (intro exI [of _ "fetches st"] exI [of _ data]) simp
  qed
qed

theorem get_data_returns_adj_close_witness:
  "fst (get_data demo_provider ''SPY'' ''2y'' (run_calls demo_provider [] initial_state))
     = Inr [(0, 100), (1, 101)]
   \<and> (\<exists>n data. n \<le> fetches (run_calls demo_provider [] initial_state)
         \<and> demo_provider n ''SPY'' ''2y'' = Inr data
         \<and> data ''Adj Close'' = Some [(0, 100), (1, 101)]
         \<and> data ''Volume'' = Some [(0, 5000), (1, 7000)])"
proof -
  have h: "fst (get_data demo_provider ''SPY'' ''2y'' (run_calls demo_provider [] initial_state))
             = Inr [(0, 100), (1, 101)]"
    by (simp add: demo_first_call)
  from get_data_returns_adj_close [OF refl h] obtain n data where
    nd: "n \<le> fetches (run_calls demo_provider [] initial_state)"
      "demo_provider n ''SPY'' ''2y'' = Inr data" "data ''Adj Close'' = Some [(0, 100), (1, 101)]"
    by blast
  from nd(2) have "data ''Volume'' = Some [(0, 5000), (1, 7000)]"
    by (auto simp: demo_provider_def)
  with nd h show ?thesis by blast
qed

section \<open>Properties of the regime classifier\<close>


section \<open>Properties of the volatility engine\<close>

text \<open>
  C1. For every price series p and the fixed window size 22, the volatility series has
  length |p| - 21 when |p| \<ge> 22 (so exactly 1 point when |p| = 22), and is the empty
  series when |p| < 22.
\<close>

theorem volatility_engine_length:
  "length (volatility_engine rt p) = (if length p < 22 then 0 else length p - 21)
   \<and> (volatility_engine rt p = []) = (length p < 22)"
  by (auto simp: volatility_engine_def rollingVolatility_def)

lemma rollingVolatility_dates:
  assumes "0 < w"
  shows "map fst (rollingVolatility rt p w) = drop (w - 1) (map fst p)"
proof (cases "w \<le> length p")
  case True
  have "map fst (rollingVolatility rt p w) = map (\<lambda>i. fst (p ! i)) [w - 1 ..< length p]"
    using True assms by (simp add: rollingVolatility_def comp_def)
  also have "\<dots> = map ((!) (map fst p)) [w - 1 ..< length p]"
    by simp
  also have "\<dots> = drop (w - 1) (map ((!) (map fst p)) [0 ..< length p])"
    by (simp add: drop_map drop_upt)
  also have "\<dots> = drop (w - 1) (map fst p)"
    using map_nth [of "map fst p"] by simp
  finally show ?thesis .
next
  case False
  then show ?thesis by (simp add: rollingVolatility_def)
qed

text \<open>
  C5. For every price series, every date of the volatility series produced from it also
  appears in the price series: the dates of the volatility series are those of the price
  series without the first 21.
\<close>

theorem volatility_engine_dates:
  "map fst (volatility_engine rt p) = drop 21 (map fst p)
   \<and> set (map fst (volatility_engine rt p)) \<subseteq> set (map fst p)"
proof -
  have eq: "map fst (volatility_engine rt p) = drop 21 (map fst p)"
    unfolding volatility_engine_def by (simp add: rollingVolatility_dates)
  show ?thesis unfolding eq using set_drop_subset by fast
qed

lemma standard_deviation_nonneg: "0 \<le> standard_deviation xs"
  unfolding standard_deviation_def
  by (intro real_sqrt_ge_zero divide_nonneg_nonneg sum_list_nonneg) auto

text \<open>
  C6. For every input price series, every value in the volatility series returned by the
  volatility engine is greater than or equal to 0.
\<close>

theorem volatility_engine_nonneg:
  "(d, v) \<in> set (volatility_engine rt p) \<Longrightarrow> 0 \<le> v"
  by (auto simp: volatility_engine_def rollingVolatility_def annualize_def
      standard_deviation_nonneg split: if_splits)

theorem volatility_engine_nonneg_witness:
  "length (volatility_engine Simple rising_prices) = 2
   \<and> 0 \<le> snd (volatility_engine Simple rising_prices ! 0)
   \<and> 0 \<le> snd (volatility_engine Simple rising_prices ! 1)"
proof -
  have len: "length (volatility_engine Simple rising_prices) = 2"
    by (simp add: volatility_engine_def rollingVolatility_def rising_prices_def)
  have m: "(fst (volatility_engine Simple rising_prices ! i),
            snd (volatility_engine Simple rising_prices ! i))
           \<in> set (volatility_engine Simple rising_prices)" if "i < 2" for i
    using that len by simp
  show ?thesis
    using len volatility_engine_nonneg [OF m [of 0]] volatility_engine_nonneg [OF m [of 1]]
    by simp
qed

section \<open>Float products and printed numbers, evaluated\<close>

lemma times_100_double_0_2: "times_100 (Finite double_0_2) = Finite 20"
  unfolding times_100.simps round_to_double_def Let_def double_0_2_def
  by (simp add: binary_exponent.simps pow2_def round_half_even_def)

lemma times_100_double_0_15: "times_100 (Finite double_0_15) = Finite 15"
  unfolding times_100.simps round_to_double_def Let_def double_0_15_def
  by (simp add: binary_exponent.simps pow2_def round_half_even_def)

lemma times_100_double_0_20004:
  "times_100 (Finite double_0_20004) = Finite (2815312717059981 / 140737488355328)"
  unfolding times_100.simps round_to_double_def Let_def double_0_20004_def
  by (simp add: binary_exponent.simps pow2_def round_half_even_def)

lemma times_100_double_0_30002:
  "times_100 (Finite double_0_30002) = Finite (4222406125636551 / 140737488355328)"
  unfolding times_100.simps round_to_double_def Let_def double_0_30002_def
  by (simp add: binary_exponent.simps pow2_def round_half_even_def)



lemma format_2f_20: "format_2f 20 = ''20.00''"
  by (simp add: format_2f_def hundredths_def round_half_even_def Let_def digit_def digits.simps)

lemma format_2f_30: "format_2f 30 = ''30.00''"
  by (simp add: format_2f_def hundredths_def round_half_even_def Let_def digit_def digits.simps)

lemma format_2f_20_004:
  "format_2f (2815312717059981 / 140737488355328) = ''20.00''"
  by (simp add: format_2f_def hundredths_def round_half_even_def Let_def digit_def digits.simps)

lemma format_2f_30_002:
  "format_2f (4222406125636551 / 140737488355328) = ''30.00''"
  by (simp add: format_2f_def hundredths_def round_half_even_def Let_def digit_def digits.simps)

lemma read_2f_20: "read_2f ''20.00'' = Some 20"
  by (simp add: read_2f_def read_unsigned_def read_nat_def digit_value_def digit_def Let_def)

section \<open>The state and the failures of a run\<close>


lemma analytics_state:
  "snd (analytics e ticker period st) = snd (get_data (yf_download e) ticker period st)"
  by (cases "get_data (yf_download e) ticker period st")
     (auto simp: analytics_def split: sum.splits)

lemma try_block_state:
  "snd (snd (try_block e ticker period thr st)) = snd (analytics e ticker period st)"
  by (cases "analytics e ticker period st")
     (auto simp: try_block_def split: sum.splits prod.splits)

lemma main_analytics_state:
  "snd (main_analytics e ticker period thr st) = snd (get_data (yf_download e) ticker period st)"
proof -
  have "snd (main_analytics e ticker period thr st) = snd (snd (try_block e ticker period thr st))"
    by (cases "try_block e ticker period thr st")
       (auto simp: main_analytics_def split: option.splits)
  then show ?thesis by (simp add: try_block_state analytics_state)
qed

lemma main_analytics_page:
  "fst (main_analytics e ticker period thr st)
     = (case fst (try_block e ticker period thr st) of
          None \<Rightarrow> fst (snd (try_block e ticker period thr st))
        | Some x \<Rightarrow> fst (snd (try_block e ticker period thr st))
                      @ [Alert_error Page (error_message ticker)])"
  by (cases "try_block e ticker period thr st")
     (auto simp: main_analytics_def split: option.splits)

lemma get_data_miss_success:
  assumes "cache st (ticker, period) = None"
    and "yf (fetches st) ticker period = Inr data" and "data ''Adj Close'' = Some s"
  shows "get_data yf ticker period st
           = (Inr s, st\<lparr>cache := (cache st)((ticker, period) \<mapsto> s), fetches := Suc (fetches st)\<rparr>)"
  using assms by (simp add: get_data_def get_data_body_def)

lemma get_data_miss_state:
  assumes "cache st (ticker, period) = None"
  shows "fetches (snd (get_data yf ticker period st)) = Suc (fetches st)"
    and "cache (snd (get_data yf ticker period st)) (ticker, period)
           = (case yf (fetches st) ticker period of Inl x \<Rightarrow> None | Inr data \<Rightarrow> data ''Adj Close'')"
    and "k \<noteq> (ticker, period) \<Longrightarrow> cache (snd (get_data yf ticker period st)) k = cache st k"
  using assms
  by (auto simp: get_data_def get_data_body_def split: sum.splits option.splits)

lemma render_all_split:
  "\<exists>shown rest. els = shown @ rest
     \<and> snd (render_all rs page els) = page @ shown
     \<and> (\<forall>el \<in> set shown. rs el = None)
     \<and> (if rest = [] then fst (render_all rs page els) = None
        else rs (hd rest) \<noteq> None \<and> fst (render_all rs page els) = rs (hd rest))"
proof (induction els arbitrary: page)
  case Nil
  then show ?case by simp
next
  case (Cons el els)
  show ?case
  proof (cases "rs el")
    case None
    from Cons.IH [of "page @ [el]"] obtain shown rest where
      s: "els = shown @ rest"
      "snd (render_all rs (page @ [el]) els) = (page @ [el]) @ shown"
      "\<forall>el \<in> set shown. rs el = None"
      "if rest = [] then fst (render_all rs (page @ [el]) els) = None
       else rs (hd rest) \<noteq> None \<and> fst (render_all rs (page @ [el]) els) = rs (hd rest)"
      by blast
    have r: "render_all rs page (el # els) = render_all rs (page @ [el]) els"
      using None by simp
    have "el # els = (el # shown) @ rest" using s(1) by simp
    moreover have "snd (render_all rs page (el # els)) = page @ (el # shown)"
      unfolding r using s(2) by simp
    moreover have "\<forall>x \<in> set (el # shown). rs x = None" using None s(3) by simp
    moreover have "if rest = [] then fst (render_all rs page (el # els)) = None
       else rs (hd rest) \<noteq> None \<and> fst (render_all rs page (el # els)) = rs (hd rest)"
      unfolding r by (rule s(4))
    ultimately show ?thesis by blast
  next
    case (Some x)
    then show ?thesis
      by (intro exI [of _ "[]"] exI [of _ "el # els"]) simp
  qed
qed



lemma analytics_success:
  assumes "fst (analytics e ticker period st) = Inr (prices, vs, cp, cv)"
  shows "fst (get_data (yf_download e) ticker period st) = Inr prices"
    and "volatility e prices (Window 22 0) = Inr vs"
    and "prices \<noteq> []" and "vs \<noteq> []"
    and "cp = snd (last prices)" and "cv = times_100 (snd (last vs))"
  using assms
  by (auto simp: analytics_def iloc_last_def split: prod.splits sum.splits if_splits)

lemma try_block_analytics_success:
  assumes "fst (analytics e ticker period st) = Inr (prices, vs, cp, cv)"
  shows "fst (try_block e ticker period thr st)
           = fst (render_all (raises e) [] (dashboard_elements prices vs cp cv thr))"
    and "fst (snd (try_block e ticker period thr st))
           = snd (render_all (raises e) [] (dashboard_elements prices vs cp cv thr))"
  using assms
  by (cases "analytics e ticker period st";
      cases "render_all (raises e) [] (dashboard_elements prices vs cp cv thr)";
      simp add: try_block_def)+

lemma status_badge_15: "status_badge (Finite 15) 20 = Alert_success (Column 3) normal_status"
  by (simp add: status_badge_def classify_def)

section \<open>The ticker in the cache key and in the failure message\<close>

text \<open>
  C10. The ticker string is used verbatim, with no trimming or case normalization, both as
  part of the cache key and in the failure message; consequently two ticker inputs
  differing only in case or surrounding whitespace form distinct cache entries and trigger
  separate network fetches. Here, for two runs of the main analytics, the first with the
  ticker t1 and the second with any other string t2: the first run sends one request and
  stores the series under t1 itself and nowhere else; the second run sends a request of
  its own, asks the provider for t2 as typed and stores what it gets under t2, beside the
  entry of t1; a further run with t1 sends no request. Whenever the second run fails, the
  page ends with the message that has t2 between the quotes, character by character.
\<close>

theorem ticker_used_verbatim:
  assumes "t1 \<noteq> t2"
    and "cache st (t1, period) = None" and "cache st (t2, period) = None"
    and "yf_download e (fetches st) t1 period = Inr data1"
    and "data1 ''Adj Close'' = Some s1"
    and "st1 = snd (main_analytics e t1 period thr st)"
    and "st2 = snd (main_analytics e t2 period thr st1)"
  shows "cache st1 = (cache st)((t1, period) \<mapsto> s1)
         \<and> fetches st1 = Suc (fetches st)
         \<and> fetches st2 = Suc (fetches st1)
         \<and> cache st2 (t1, period) = Some s1
         \<and> cache st2 (t2, period)
             = (case yf_download e (fetches st1) t2 period of
                  Inl x \<Rightarrow> None
                | Inr data2 \<Rightarrow> data2 ''Adj Close'')
         \<and> fetches (snd (main_analytics e t1 period thr st2)) = fetches st2
         \<and> (\<forall>x. fst (try_block e t2 period thr st1) = Some x \<longrightarrow>
              last (fst (main_analytics e t2 period thr st1))
                = Alert_error Page
                    (''Error: Could not fetch data for ticker '' @ [CHR 0x27] @ t2 @ [CHR 0x27]
                       @ ''. Please check the symbol.''))"
proof -
  have st1: "st1 = st\<lparr>cache := (cache st)((t1, period) \<mapsto> s1), fetches := Suc (fetches st)\<rparr>"
    unfolding assms(6) main_analytics_state
    using get_data_miss_success [of st t1 period "yf_download e" data1 s1] assms(2,4,5)
    by simp
  have a: "cache st1 = (cache st)((t1, period) \<mapsto> s1)" by (simp add: st1)
  have b: "fetches st1 = Suc (fetches st)" by (simp add: st1)
  have miss: "cache st1 (t2, period) = None" using assms(1,3) by (simp add: st1)
  have st2: "st2 = snd (get_data (yf_download e) t2 period st1)"
    unfolding assms(7) by (rule main_analytics_state)
  have c: "fetches st2 = Suc (fetches st1)"
    unfolding st2 by (rule get_data_miss_state(1) [OF miss])
  have "(t1, period) \<noteq> (t2, period)" using assms(1) by simp
  then have "cache st2 (t1, period) = cache st1 (t1, period)"
    unfolding st2 by (rule get_data_miss_state(3) [OF miss])
  then have d: "cache st2 (t1, period) = Some s1" by (simp add: st1)
  have f: "cache st2 (t2, period)
             = (case yf_download e (fetches st1) t2 period of
                  Inl x \<Rightarrow> None
                | Inr data2 \<Rightarrow> data2 ''Adj Close'')"
    unfolding st2 by (rule get_data_miss_state(2) [OF miss])
  have g: "fetches (snd (main_analytics e t1 period thr st2)) = fetches st2"
    unfolding main_analytics_state by (simp add: get_data_hit [OF d])
  have h: "last (fst (main_analytics e t2 period thr st1))
             = Alert_error Page
                 (''Error: Could not fetch data for ticker '' @ [CHR 0x27] @ t2 @ [CHR 0x27]
                    @ ''. Please check the symbol.'')"
    if "fst (try_block e t2 period thr st1) = Some x" for x
    unfolding main_analytics_page using that by (simp add: error_message_def)
  from a b c d f g h show ?thesis by blast
qed

lemma two_spellings_first_run:
  "snd (main_analytics two_spellings_env ''SPY'' ''2y'' 20 initial_state)
     = \<lparr>cache = [(''SPY'', ''2y'') \<mapsto> [(0, 100), (1, 101)]], fetches = 1\<rparr>"
  unfolding main_analytics_state
  by (simp add: get_data_def get_data_body_def two_spellings_env_def two_spellings_provider_def
      initial_state_def)

lemma two_spellings_second_analytics:
  "fst (analytics two_spellings_env '' spy'' ''2y''
          \<lparr>cache = [(''SPY'', ''2y'') \<mapsto> [(0, 100), (1, 101)]], fetches = 1\<rparr>)
     = Inr ([(0, 100), (1, 102)], [(1, Finite double_0_15)], 102, Finite 15)"
  by (simp add: analytics_def get_data_def get_data_body_def two_spellings_env_def
      two_spellings_provider_def iloc_last_def times_100_double_0_15 del: times_100.simps)

lemma two_spellings_second_try_block:
  "fst (try_block two_spellings_env '' spy'' ''2y'' 20
          \<lparr>cache = [(''SPY'', ''2y'') \<mapsto> [(0, 100), (1, 101)]], fetches = 1\<rparr>)
     = Some (Exception ''render'')"
proof -
  have rs: "raises two_spellings_env
              = (\<lambda>el. case el of Dataframe p s \<Rightarrow> Some (Exception ''render'') | _ \<Rightarrow> None)"
    by (simp add: two_spellings_env_def)
  show ?thesis
    unfolding try_block_analytics_success(1) [OF two_spellings_second_analytics] rs
    by (simp add: dashboard_elements_def status_badge_15)
qed

theorem ticker_used_verbatim_witness:
  "''SPY'' \<noteq> '' spy''
   \<and> cache initial_state (''SPY'', ''2y'') = None
   \<and> cache initial_state ('' spy'', ''2y'') = None
   \<and> yf_download two_spellings_env (fetches initial_state) ''SPY'' ''2y''
       = Inr [''Adj Close'' \<mapsto> [(0, 100), (1, 101)]]
   \<and> fetches (snd (main_analytics two_spellings_env ''SPY'' ''2y'' 20 initial_state)) = 1
   \<and> fetches (snd (main_analytics two_spellings_env '' spy'' ''2y'' 20
        (snd (main_analytics two_spellings_env ''SPY'' ''2y'' 20 initial_state)))) = 2
   \<and> cache (snd (main_analytics two_spellings_env '' spy'' ''2y'' 20
        (snd (main_analytics two_spellings_env ''SPY'' ''2y'' 20 initial_state))))
        (''SPY'', ''2y'') = Some [(0, 100), (1, 101)]
   \<and> cache (snd (main_analytics two_spellings_env '' spy'' ''2y'' 20
        (snd (main_analytics two_spellings_env ''SPY'' ''2y'' 20 initial_state))))
        ('' spy'', ''2y'') = Some [(0, 100), (1, 102)]
   \<and> fst (try_block two_spellings_env '' spy'' ''2y'' 20
        (snd (main_analytics two_spellings_env ''SPY'' ''2y'' 20 initial_state)))
       = Some (Exception ''render'')
   \<and> last (fst (main_analytics two_spellings_env '' spy'' ''2y'' 20
        (snd (main_analytics two_spellings_env ''SPY'' ''2y'' 20 initial_state))))
       = Alert_error Page
           (''Error: Could not fetch data for ticker '' @ [CHR 0x27] @ '' spy'' @ [CHR 0x27]
              @ ''. Please check the symbol.'')"
proof -
  have h1: "''SPY'' \<noteq> '' spy''" by simp
  have h2: "cache initial_state (''SPY'', ''2y'') = None" by (simp add: initial_state_def)
  have h3: "cache initial_state ('' spy'', ''2y'') = None" by (simp add: initial_state_def)
  have h4: "yf_download two_spellings_env (fetches initial_state) ''SPY'' ''2y''
              = Inr [''Adj Close'' \<mapsto> [(0, 100), (1, 101)]]"
    by (simp add: two_spellings_env_def two_spellings_provider_def)
  have h5: "[''Adj Close'' \<mapsto> [(0, 100), (1, 101 :: real)]] ''Adj Close''
              = Some [(0 :: nat, 100), (1, 101)]"
    by simp
  have h6: "fst (try_block two_spellings_env '' spy'' ''2y'' 20
              (snd (main_analytics two_spellings_env ''SPY'' ''2y'' 20 initial_state)))
            = Some (Exception ''render'')"
    unfolding two_spellings_first_run by (rule two_spellings_second_try_block)
  have p: "yf_download two_spellings_env (Suc 0) '' spy'' ''2y''
             = Inr [''Adj Close'' \<mapsto> [(0, 100), (1, 102)]]"
    by (simp add: two_spellings_env_def two_spellings_provider_def)
  from ticker_used_verbatim [OF h1 h2 h3 h4 h5 refl refl, of 20] h6
  have "fetches (snd (main_analytics two_spellings_env ''SPY'' ''2y'' 20 initial_state)) = 1"
    and "fetches (snd (main_analytics two_spellings_env '' spy'' ''2y'' 20
        (snd (main_analytics two_spellings_env ''SPY'' ''2y'' 20 initial_state)))) = 2"
    and "cache (snd (main_analytics two_spellings_env '' spy'' ''2y'' 20
        (snd (main_analytics two_spellings_env ''SPY'' ''2y'' 20 initial_state))))
        (''SPY'', ''2y'') = Some [(0, 100), (1, 101)]"
    and "cache (snd (main_analytics two_spellings_env '' spy'' ''2y'' 20
        (snd (main_analytics two_spellings_env ''SPY'' ''2y'' 20 initial_state))))
        ('' spy'', ''2y'') = Some [(0, 100), (1, 102)]"
    and "last (fst (main_analytics two_spellings_env '' spy'' ''2y'' 20
        (snd (main_analytics two_spellings_env ''SPY'' ''2y'' 20 initial_state))))
       = Alert_error Page
           (''Error: Could not fetch data for ticker '' @ [CHR 0x27] @ '' spy'' @ [CHR 0x27]
              @ ''. Please check the symbol.'')"
    by (simp_all add: initial_state_def p)
  with h1 h2 h3 h4 h6 show ?thesis by blast
qed

section \<open>Rounding to two decimals\<close>

lemma round_half_even_gt_even:
  assumes "even m"
  shows "(m < round_half_even x) = (of_int m + 1/2 < x)"
proof -
  define f where "f = \<lfloor>x\<rfloor>"
  have lo: "of_int f \<le> x" and hi: "x < of_int f + 1"
    unfolding f_def by linarith+
  consider "f < m" | "f = m" | "m < f" by linarith
  then show ?thesis
  proof cases
    case 1
    then have "of_int f + 1 \<le> (of_int m :: real)"
      by (metis of_int_1 of_int_add of_int_le_iff zless_imp_add1_zle)
    with hi have "\<not> of_int m + 1/2 < x" by linarith
    moreover have "round_half_even x \<le> f + 1"
      by (simp add: round_half_even_def Let_def f_def [symmetric])
    with 1 have "\<not> m < round_half_even x" by linarith
    ultimately show ?thesis by simp
  next
    case 2
    with assms have ev: "even f" by simp
    show ?thesis
      using ev unfolding 2 [symmetric]
      by (auto simp: round_half_even_def Let_def f_def [symmetric])
  next
    case 3
    then have "of_int m + 1 \<le> (of_int f :: real)"
      by (metis of_int_1 of_int_add of_int_le_iff zless_imp_add1_zle)
    with lo have "of_int m + 1/2 < x" by linarith
    moreover have "f \<le> round_half_even x"
      by (simp add: round_half_even_def Let_def f_def [symmetric])
    with 3 have "m < round_half_even x" by linarith
    ultimately show ?thesis by simp
  qed
qed

lemma round_half_even_ge:
  assumes "of_int m \<le> x"
  shows "m \<le> round_half_even x"
proof -
  from assms have "m \<le> \<lfloor>x\<rfloor>" by (simp add: le_floor_iff)
  moreover have "\<lfloor>x\<rfloor> \<le> round_half_even x"
    by (simp add: round_half_even_def Let_def)
  ultimately show ?thesis by linarith
qed

lemma round_half_even_neg:
  assumes "x < 0"
  shows "round_half_even x \<le> 0"
proof -
  from assms have "\<lfloor>x\<rfloor> < 0" by (simp add: floor_less_iff)
  moreover have "round_half_even x \<le> \<lfloor>x\<rfloor> + 1"
    by (simp add: round_half_even_def Let_def)
  ultimately show ?thesis by linarith
qed

lemma round_half_even_of_int: "round_half_even (of_int m) = m"
  by (simp add: round_half_even_def)

lemma hundredths_exceeds_iff:
  "(of_int (hundredths v) / 100 > (of_int t :: real)) = (v > of_int t + 1/200)"
proof -
  have "(of_int (hundredths v) / 100 > (of_int t :: real))
        = (of_int (100 * t) < (of_int (hundredths v) :: real))"
    by (simp add: field_simps)
  also have "\<dots> = (100 * t < hundredths v)"
    by (simp only: of_int_less_iff)
  also have "\<dots> = (of_int (100 * t) + 1/2 < v * 100)"
    unfolding hundredths_def by (rule round_half_even_gt_even) simp
  also have "\<dots> = (v > of_int t + 1/200)"
    by (simp add: field_simps)
  finally show ?thesis .
qed

lemma hundredths_of_int: "hundredths (of_int t) = 100 * t"
proof -
  have "of_int t * (100 :: real) = of_int (100 * t)" by simp
  then show ?thesis unfolding hundredths_def by (simp only: round_half_even_of_int)
qed

lemma hundredths_just_above:
  assumes "of_int t < r" and "r \<le> of_int t + 1/200"
  shows "hundredths r = 100 * t"
proof -
  have "\<not> (of_int (hundredths r) / 100 > (of_int t :: real))"
    unfolding hundredths_exceeds_iff using assms(2) by simp
  then have "of_int (hundredths r) \<le> (of_int (100 * t) :: real)"
    by (simp add: field_simps)
  then have up: "hundredths r \<le> 100 * t" by (simp only: of_int_le_iff)
  have "of_int (100 * t) \<le> r * 100" using assms(1) by simp
  then have "100 * t \<le> hundredths r"
    unfolding hundredths_def by (rule round_half_even_ge)
  with up show ?thesis by simp
qed

lemma format_2f_just_above:
  assumes "of_int t < r" and "r \<le> of_int t + 1/200"
  shows "format_2f r = format_2f (of_int t)"
proof -
  have h: "hundredths r = hundredths (of_int t)"
    using hundredths_just_above [OF assms] by (simp add: hundredths_of_int)
  have "(r < 0) = (of_int t < (0 :: real))"
  proof (cases "0 \<le> t")
    case True
    then have "(0 :: real) \<le> of_int t" by simp
    with assms(1) show ?thesis by simp
  next
    case False
    then have "t \<le> -1" by simp
    then have "of_int t \<le> (-1 :: real)" by (metis of_int_le_iff of_int_minus of_int_1)
    with assms(2) show ?thesis by simp
  qed
  with h show ?thesis by (simp add: format_2f_def)
qed

section \<open>Reading a printed number back\<close>

lemma digit_value_digit: "d < 10 \<Longrightarrow> digit_value (digit d) = Some d"
proof -
  assume "d < 10"
  then have "d \<in> {0, 1, 2, 3, 4, 5, 6, 7, 8, 9}" by auto
  then show ?thesis
    by (auto simp: digit_value_def digit_def)
qed

lemma digit_not_point: "d < 10 \<Longrightarrow> digit d \<noteq> CHR ''.'' \<and> digit d \<noteq> CHR ''-''"
proof -
  assume "d < 10"
  then have "d \<in> {0, 1, 2, 3, 4, 5, 6, 7, 8, 9}" by auto
  then show ?thesis
    by (auto simp: digit_def)
qed

lemma digits_chars: "c \<in> set (digits n) \<Longrightarrow> c \<noteq> CHR ''.'' \<and> c \<noteq> CHR ''-''"
proof (induction n rule: digits.induct)
  case (1 n)
  show ?case
  proof (cases "n < 10")
    case True
    with "1.prems" have "c = digit n" by (simp add: digits.simps [of n])
    with True show ?thesis by (simp add: digit_not_point)
  next
    case False
    with "1.prems" have "c \<in> set (digits (n div 10)) \<or> c = digit (n mod 10)"
      by (auto simp: digits.simps [of n])
    then show ?thesis
    proof
      assume "c \<in> set (digits (n div 10))"
      with False show ?thesis by (rule "1.IH")
    next
      assume "c = digit (n mod 10)"
      then show ?thesis by (simp add: digit_not_point)
    qed
  qed
qed

lemma digits_nonempty: "digits n \<noteq> []"
  by (subst digits.simps) simp

lemma read_digits_append:
  "read_digits acc (xs @ ys)
     = (case read_digits acc xs of None \<Rightarrow> None | Some a \<Rightarrow> read_digits a ys)"
  by (induction xs arbitrary: acc) (auto split: option.splits)

lemma read_digits_digits: "read_digits 0 (digits n) = Some n"
proof (induction n rule: digits.induct)
  case (1 n)
  show ?case
  proof (cases "n < 10")
    case True
    then show ?thesis by (simp add: digits.simps [of n] digit_value_digit)
  next
    case False
    then have ih: "read_digits 0 (digits (n div 10)) = Some (n div 10)" by (rule "1.IH")
    have "read_digits 0 (digits n) = read_digits (n div 10) [digit (n mod 10)]"
      using False by (simp add: digits.simps [of n] read_digits_append ih)
    also have "\<dots> = Some (n div 10 * 10 + n mod 10)"
      by (simp add: digit_value_digit)
    finally show ?thesis by simp
  qed
qed

lemma read_nat_digits: "read_nat (digits n) = Some n"
  by (simp add: read_nat_def digits_nonempty read_digits_digits)

lemma read_nat_two_digits:
  "read_nat [digit (h div 10 mod 10), digit (h mod 10)] = Some (h mod 100)"
proof -
  have a: "digit_value (digit (h div 10 mod 10)) = Some (h div 10 mod 10)"
    by (rule digit_value_digit) simp
  have b: "digit_value (digit (h mod 10)) = Some (h mod 10)"
    by (rule digit_value_digit) simp
  have "read_nat [digit (h div 10 mod 10), digit (h mod 10)]
          = Some (h div 10 mod 10 * 10 + h mod 10)"
    unfolding read_nat_def read_digits.simps a b by simp
  moreover have "h mod 100 = 10 * (h div 10 mod 10) + h mod 10"
    using mod_mult2_eq [of h 10 10] by simp
  ultimately show ?thesis by simp
qed

lemma read_unsigned_parts:
  assumes "\<forall>c \<in> set w. c \<noteq> CHR ''.''" and "length f = 2"
    and "read_nat w = Some a" and "read_nat f = Some b"
  shows "read_unsigned (w @ CHR ''.'' # f) = Some (real a + real b / 100)"
proof -
  have tw: "takeWhile (\<lambda>c. c \<noteq> CHR ''.'') (w @ CHR ''.'' # f) = w"
    using assms(1) by (induction w) auto
  have dr: "drop (length w + 1) (w @ CHR ''.'' # f) = f" by simp
  show ?thesis
    unfolding read_unsigned_def Let_def tw dr assms(3,4)
    by (simp add: assms(2))
qed

lemma read_2f_format_2f: "read_2f (format_2f x) = Some (of_int (hundredths x) / 100)"
proof -
  define h where "h = nat \<bar>hundredths x\<bar>"
  define w where "w = digits (h div 100)"
  define f where "f = [digit (h div 10 mod 10), digit (h mod 10)]"
  have nodot: "\<forall>c \<in> set w. c \<noteq> CHR ''.''" unfolding w_def using digits_chars by blast
  have lf: "length f = 2" by (simp add: f_def)
  have rw: "read_nat w = Some (h div 100)" unfolding w_def by (rule read_nat_digits)
  have rf: "read_nat f = Some (h mod 100)" unfolding f_def by (rule read_nat_two_digits)
  note body = read_unsigned_parts [OF nodot lf rw rf]
  have parts: "real (h div 100) + real (h mod 100) / 100 = real h / 100"
  proof -
    have "h = h div 100 * 100 + h mod 100" by simp
    then have "real h = real (h div 100 * 100 + h mod 100)" by simp
    then have "real h = real (h div 100) * 100 + real (h mod 100)"
      by (simp only: of_nat_add of_nat_mult of_nat_numeral)
    then show ?thesis by (simp add: field_simps)
  qed
  have wne: "w \<noteq> []" unfolding w_def by (rule digits_nonempty)
  then obtain c cs where wc: "w = c # cs" by (cases w) auto
  then have "c \<in> set (digits (h div 100))" unfolding w_def [symmetric] by simp
  then have cminus: "c \<noteq> CHR ''-''" using digits_chars by blast
  show ?thesis
  proof (cases "x < 0")
    case True
    then have "x * 100 < 0" by simp
    then have "hundredths x \<le> 0" unfolding hundredths_def by (rule round_half_even_neg)
    then have val: "- real h = of_int (hundredths x)" by (simp add: h_def)
    have fmt: "format_2f x = CHR ''-'' # (w @ CHR ''.'' # f)"
      using True by (simp add: format_2f_def h_def [symmetric] w_def f_def)
    have "read_2f (format_2f x) = Some (- (real (h div 100) + real (h mod 100) / 100))"
      unfolding fmt read_2f_def by (simp add: body)
    then show ?thesis unfolding parts using val by simp
  next
    case False
    then have "of_int 0 \<le> x * 100" by simp
    then have "0 \<le> hundredths x" unfolding hundredths_def by (rule round_half_even_ge)
    then have val: "real h = of_int (hundredths x)" by (simp add: h_def)
    have fmt: "format_2f x = w @ CHR ''.'' # f"
      using False by (simp add: format_2f_def h_def [symmetric] w_def f_def)
    have t1: "take 1 (w @ CHR ''.'' # f) \<noteq> ''-''" using wc cminus by simp
    have "read_2f (format_2f x) = Some (real (h div 100) + real (h mod 100) / 100)"
      unfolding fmt read_2f_def using t1 by (simp add: body)
    then show ?thesis unfolding parts using val by simp
  qed
qed

section \<open>The error boundary of the main analytics\<close>


lemma demo_env_analytics:
  "fst (analytics (demo_env last_vol) ''SPY'' ''2y'' initial_state)
     = Inr ([(0, 100), (1, 101)], [(1, last_vol)], 101, times_100 last_vol)"
  by (simp add: analytics_def demo_env_def demo_first_call iloc_last_def)

lemma demo_env_try_block:
  "fst (try_block (demo_env last_vol) ''SPY'' ''2y'' thr initial_state) = None"
  unfolding try_block_analytics_success(1) [OF demo_env_analytics]
  by (simp add: dashboard_elements_def demo_env_def)

lemma demo_env_page:
  "fst (main_analytics (demo_env last_vol) ''SPY'' ''2y'' thr initial_state)
     = dashboard_elements [(0, 100), (1, 101)] [(1, last_vol)] 101 (times_100 last_vol) thr"
  unfolding main_analytics_page demo_env_try_block
    try_block_analytics_success(2) [OF demo_env_analytics]
  by (simp add: dashboard_elements_def demo_env_def)


lemma status_badge_20_004:
  "status_badge (Finite (2815312717059981 / 140737488355328)) 20
     = Alert_error (Column 3) high_status"
  by (simp add: status_badge_def classify_def)



section \<open>The badge and the displayed metric\<close>

lemma status_badge_iff:
  "(status_badge cv thr = Alert_error (Column 3) high_status) = (regime_of cv thr = HIGH_VOLATILITY)"
  "(status_badge cv thr = Alert_success (Column 3) normal_status) = (regime_of cv thr = STABLE)"
  by (auto simp: status_badge_def split: RegimeState.splits)

text \<open>
  The float product of line 41 is not the exact product: the double nearest to 0.2, which
  is above 0.2, times 100 is the float 20.0, and with the threshold 20 the badge is the
  normal one.
\<close>

lemma badge_at_double_0_2:
  "fst (main_analytics (demo_env (Finite double_0_2)) ''SPY'' ''2y'' 20 initial_state) ! 3
     = Alert_success (Column 3) normal_status
   \<and> 20 < double_0_2 * 100"
  unfolding demo_env_page times_100_double_0_2
  by (simp add: dashboard_elements_def status_badge_def classify_def double_0_2_def)

text \<open>
  C8, as the code has it. On every successful render the regime badge and the volatility
  metric are derived from the same value, \<^verbatim>\<open>current_vol\<close>: the float product of the last
  element of the volatility series and 100. The HIGH VOLATILITY badge is shown exactly
  when that value exceeds the threshold. The metric shows the value printed with two
  decimals. For a finite value, the number the metric shows exceeds the threshold exactly
  when the value exceeds the threshold by more than 0.005; for a value above the threshold
  by at most 0.005 the badge is HIGH VOLATILITY while the metric shows the threshold
  itself.
\<close>

theorem badge_and_metric_from_current_vol:
  assumes "fst (analytics e ticker period st) = Inr (prices, vol_series, current_price, current_vol)"
    and "fst (try_block e ticker period thr st) = None"
    and "page = fst (main_analytics e ticker period thr st)"
  shows "volatility e prices (Window 22 0) = Inr vol_series
         \<and> current_vol = times_100 (snd (last vol_series))
         \<and> page ! 2 = Metric (Column 2) ''30-Day Volatility'' (format_float current_vol @ ''%'')
         \<and> (page ! 3 = Alert_error (Column 3) high_status)
             = (regime_of current_vol thr = HIGH_VOLATILITY)
         \<and> (page ! 3 = Alert_success (Column 3) normal_status)
             = (regime_of current_vol thr = STABLE)
         \<and> (\<forall>r. current_vol = Finite r \<longrightarrow>
               (page ! 3 = Alert_error (Column 3) high_status) = (r > of_int thr)
               \<and> (\<exists>text shown.
                     page ! 2 = Metric (Column 2) ''30-Day Volatility'' (text @ ''%'')
                     \<and> read_2f text = Some shown
                     \<and> (shown > of_int thr) = (r > of_int thr + 1/200)
                     \<and> (of_int thr < r \<and> r \<le> of_int thr + 1/200 \<longrightarrow>
                          shown = of_int thr
                          \<and> text = format_2f (of_int thr)
                          \<and> page ! 3 = Alert_error (Column 3) high_status)))"
proof -
  let ?els = "dashboard_elements prices vol_series current_price current_vol thr"
  note tb = try_block_analytics_success [OF assms(1), of thr]
  from render_all_split [of ?els "raises e" "[]"] obtain shown rest where
    s: "?els = shown @ rest"
    "snd (render_all (raises e) [] ?els) = shown"
    "if rest = [] then fst (render_all (raises e) [] ?els) = None
     else raises e (hd rest) \<noteq> None \<and> fst (render_all (raises e) [] ?els) = raises e (hd rest)"
    by auto
  have "rest = []"
  proof (rule ccontr)
    assume "rest \<noteq> []"
    with s(3) have "fst (render_all (raises e) [] ?els) \<noteq> None" by simp
    with assms(2) show False by (simp add: tb)
  qed
  with s have "fst (snd (try_block e ticker period thr st)) = ?els" by (simp add: tb)
  then have page: "page = ?els"
    unfolding assms(3) main_analytics_page by (simp add: assms(2))
  have m: "page ! 2 = Metric (Column 2) ''30-Day Volatility'' (format_float current_vol @ ''%'')"
    unfolding page by (simp add: dashboard_elements_def)
  have b: "page ! 3 = status_badge current_vol thr"
    unfolding page by (simp add: dashboard_elements_def)
  have hi: "(page ! 3 = Alert_error (Column 3) high_status)
              = (regime_of current_vol thr = HIGH_VOLATILITY)"
    unfolding b by (rule status_badge_iff)
  have lo: "(page ! 3 = Alert_success (Column 3) normal_status)
              = (regime_of current_vol thr = STABLE)"
    unfolding b by (rule status_badge_iff)
  have fin: "(page ! 3 = Alert_error (Column 3) high_status) = (r > of_int thr)
             \<and> (\<exists>text shown.
                   page ! 2 = Metric (Column 2) ''30-Day Volatility'' (text @ ''%'')
                   \<and> read_2f text = Some shown
                   \<and> (shown > of_int thr) = (r > of_int thr + 1/200)
                   \<and> (of_int thr < r \<and> r \<le> of_int thr + 1/200 \<longrightarrow>
                        shown = of_int thr
                        \<and> text = format_2f (of_int thr)
                        \<and> page ! 3 = Alert_error (Column 3) high_status))"
    if cv: "current_vol = Finite r" for r
  proof -
    have badge: "(page ! 3 = Alert_error (Column 3) high_status) = (r > of_int thr)"
      unfolding hi cv by (simp add: classify_def)
    have m': "page ! 2 = Metric (Column 2) ''30-Day Volatility'' (format_2f r @ ''%'')"
      using m unfolding cv by simp
    have rd: "read_2f (format_2f r) = Some (of_int (hundredths r) / 100)"
      by (rule read_2f_format_2f)
    have ex: "(of_int (hundredths r) / 100 > (of_int thr :: real)) = (r > of_int thr + 1/200)"
      by (rule hundredths_exceeds_iff)
    have win: "of_int (hundredths r) / 100 = (of_int thr :: real)
               \<and> format_2f r = format_2f (of_int thr)
               \<and> page ! 3 = Alert_error (Column 3) high_status"
      if w: "of_int thr < r \<and> r \<le> of_int thr + 1/200"
    proof -
      from w have w1: "of_int thr < r" and w2: "r \<le> of_int thr + 1/200" by simp_all
      have "hundredths r = 100 * thr" using w1 w2 by (rule hundredths_just_above)
      then have "of_int (hundredths r) / 100 = (of_int thr :: real)" by simp
      moreover have "format_2f r = format_2f (of_int thr)"
        using w1 w2 by (rule format_2f_just_above)
      moreover have "page ! 3 = Alert_error (Column 3) high_status"
        using badge w1 by simp
      ultimately show ?thesis by simp
    qed
    have "\<exists>text shown.
            page ! 2 = Metric (Column 2) ''30-Day Volatility'' (text @ ''%'')
            \<and> read_2f text = Some shown
            \<and> (shown > of_int thr) = (r > of_int thr + 1/200)
            \<and> (of_int thr < r \<and> r \<le> of_int thr + 1/200 \<longrightarrow>
                 shown = of_int thr
                 \<and> text = format_2f (of_int thr)
                 \<and> page ! 3 = Alert_error (Column 3) high_status)"
      using m' rd ex win
      by (intro exI [of _ "format_2f r"] exI [of _ "of_int (hundredths r) / 100"]) blast
    with badge show ?thesis by simp
  qed
  from analytics_success(2,6) [OF assms(1)] m hi lo fin show ?thesis by blast
qed

theorem badge_and_metric_from_current_vol_witness:
  "fst (analytics (demo_env (Finite double_0_30002)) ''SPY'' ''2y'' initial_state)
     = Inr ([(0, 100), (1, 101)], [(1, Finite double_0_30002)], 101,
            Finite (4222406125636551 / 140737488355328))
   \<and> fst (try_block (demo_env (Finite double_0_30002)) ''SPY'' ''2y'' 30 initial_state) = None
   \<and> (of_int 30 :: real) < 4222406125636551 / 140737488355328
   \<and> (4222406125636551 / 140737488355328 :: real) \<le> of_int 30 + 1/200
   \<and> fst (main_analytics (demo_env (Finite double_0_30002)) ''SPY'' ''2y'' 30 initial_state) ! 2
       = Metric (Column 2) ''30-Day Volatility'' ''30.00%''
   \<and> fst (main_analytics (demo_env (Finite double_0_30002)) ''SPY'' ''2y'' 30 initial_state) ! 3
       = Alert_error (Column 3) high_status
   \<and> read_2f ''30.00'' = Some 30"
proof -
  let ?e = "demo_env (Finite double_0_30002)"
  let ?page = "fst (main_analytics ?e ''SPY'' ''2y'' 30 initial_state)"
  have h1: "fst (analytics ?e ''SPY'' ''2y'' initial_state)
     = Inr ([(0, 100), (1, 101)], [(1, Finite double_0_30002)], 101,
            Finite (4222406125636551 / 140737488355328))"
    unfolding demo_env_analytics times_100_double_0_30002 by simp
  have h2: "fst (try_block ?e ''SPY'' ''2y'' 30 initial_state) = None"
    by (rule demo_env_try_block)
  have h3: "(of_int 30 :: real) < 4222406125636551 / 140737488355328" by simp
  have h4: "(4222406125636551 / 140737488355328 :: real) \<le> of_int 30 + 1/200" by simp
  from badge_and_metric_from_current_vol [OF h1 h2 refl]
  obtain str shown where
    t: "?page ! 2 = Metric (Column 2) ''30-Day Volatility'' (str @ ''%'')"
      "read_2f str = Some shown"
      "of_int 30 < (4222406125636551 / 140737488355328 :: real)
         \<and> (4222406125636551 / 140737488355328 :: real) \<le> of_int 30 + 1/200 \<longrightarrow>
       shown = of_int 30 \<and> str = format_2f (of_int 30)
         \<and> ?page ! 3 = Alert_error (Column 3) high_status"
    by blast
  from t(3) h3 h4 have c: "shown = 30" "str = format_2f 30"
    "?page ! 3 = Alert_error (Column 3) high_status"
    by simp_all
  from t(1,2) c have "?page ! 2 = Metric (Column 2) ''30-Day Volatility'' ''30.00%''"
    and "read_2f ''30.00'' = Some 30"
    by (simp_all add: format_2f_30)
  with h1 h2 h3 h4 c(3) show ?thesis by blast
qed

text \<open>
  C8 as stated fails: with the double nearest to 0.20004 as the latest volatility and a
  threshold of 20, the metric shows 20.00%, which does not exceed 20, and the badge is
  HIGH VOLATILITY.
\<close>

theorem badge_vs_displayed_counterexample:
  "fst (try_block (demo_env (Finite double_0_20004)) ''SPY'' ''2y'' 20 initial_state) = None
   \<and> fst (main_analytics (demo_env (Finite double_0_20004)) ''SPY'' ''2y'' 20 initial_state) ! 2
       = Metric (Column 2) ''30-Day Volatility'' ''20.00%''
   \<and> fst (main_analytics (demo_env (Finite double_0_20004)) ''SPY'' ''2y'' 20 initial_state) ! 3
       = Alert_error (Column 3) high_status
   \<and> read_2f ''20.00'' = Some 20
   \<and> \<not> ((20 :: real) > of_int 20)"
  unfolding demo_env_page times_100_double_0_20004
  by (simp add: demo_env_try_block dashboard_elements_def format_2f_20_004 status_badge_20_004
      read_2f_20)

end
